theory Spec2Isabelle
  imports Complex_Main "HOL-Library.Multiset"
begin

section \<open>JavaScript values used by the dashboard\<close>

text \<open>
  A JavaScript number that may be \<open>NaN\<close>, or a property that may be \<open>undefined\<close>, is an
  option: \<open>None\<close> is \<open>NaN\<close> (respectively \<open>undefined\<close>, which every arithmetic
  operator turns into \<open>NaN\<close>). Epoch seconds and minutes are integers, coordinates and track
  percentages are reals. Numbers are the mathematical ones: rounding of doubles and overflow
  to \<open>Infinity\<close> are not part of the model.
\<close>

definition truthy_num :: "'n::zero option \<Rightarrow> bool" where
  \<comment> \<open>\<open>!!x\<close> for a number or \<open>undefined\<close>: \<open>0\<close>, \<open>NaN\<close> and \<open>undefined\<close> are falsy\<close>
  "truthy_num x = (case x of None \<Rightarrow> False | Some n \<Rightarrow> n \<noteq> 0)"

definition truthy_str :: "string option \<Rightarrow> bool" where
  \<comment> \<open>\<open>!!s\<close> for a string or \<open>undefined\<close>: the empty string is falsy\<close>
  "truthy_str s = (case s of None \<Rightarrow> False | Some t \<Rightarrow> t \<noteq> [])"

definition or_num :: "'n::zero option \<Rightarrow> 'n option \<Rightarrow> 'n option" where
  \<comment> \<open>\<open>a || b\<close>\<close>
  "or_num a b = (if truthy_num a then a else b)"

definition or_str :: "string option \<Rightarrow> string option \<Rightarrow> string option" where
  \<comment> \<open>\<open>a || b\<close>\<close>
  "or_str a b = (if truthy_str a then a else b)"

definition num_less :: "'n::linorder option \<Rightarrow> 'n option \<Rightarrow> bool" where
  \<comment> \<open>\<open>a - b < 0\<close>; a comparison with \<open>NaN\<close> is false\<close>
  "num_less a b = (case (a, b) of (Some x, Some y) \<Rightarrow> x < y | _ \<Rightarrow> False)"

definition num_le :: "'n::linorder option \<Rightarrow> 'n option \<Rightarrow> bool" where
  \<comment> \<open>\<open>a <= b\<close>; a comparison with \<open>NaN\<close> is false\<close>
  "num_le a b = (case (a, b) of (Some x, Some y) \<Rightarrow> x \<le> y | _ \<Rightarrow> False)"

definition math_round :: "real \<Rightarrow> int" where
  \<comment> \<open>\<open>Math.round\<close>: the nearest integer, a tie going up\<close>
  "math_round x = \<lfloor>x + 1 / 2\<rfloor>"

definition math_max :: "'n::linorder \<Rightarrow> 'n option \<Rightarrow> 'n option" where
  \<comment> \<open>\<open>Math.max(c, x)\<close> for a constant \<open>c\<close>: \<open>NaN\<close> when \<open>x\<close> is\<close>
  "math_max c x = map_option (max c) x"





subsection \<open>\<open>Array.prototype.sort\<close> with a comparator \<open>(a, b) => key(a) - key(b)\<close>\<close>

text \<open>
  The sort is stable, and a comparator result of \<open>NaN\<close> counts as \<open>0\<close> (equal). When
  every key is a number the result is the stable ascending sort, which the insertion sort
  below computes. When some key is \<open>NaN\<close> the comparator is inconsistent and ECMAScript
  leaves the order to the engine; the model then still returns a permutation, and no
  statement about the order is made for such inputs.
\<close>

fun insert_num :: "('a \<Rightarrow> 'n::linorder option) \<Rightarrow> 'a \<Rightarrow> 'a list \<Rightarrow> 'a list" where
  "insert_num key x [] = [x]"
| "insert_num key x (y # ys) =
     (if num_less (key x) (key y) then x # y # ys else y # insert_num key x ys)"

definition sort_num :: "('a \<Rightarrow> 'n::linorder option) \<Rightarrow> 'a list \<Rightarrow> 'a list" where
  "sort_num key xs = foldl (\<lambda>acc x. insert_num key x acc) [] xs"


section \<open>Station arrivals in the API client (api.js)\<close>

subsection \<open>Upstream JSON and \<open>API.fetch\<close>\<close>

text \<open>
  \<open>API.fetch\<close> throws when the request fails, when the status is not 2xx and when the
  body is not JSON. \<open>getStationArrivals\<close> asks \<open>/api/rtd/arrivals/<stop>\<close> for route
  \<open>117N\<close> and \<open>/api/rtd/gline/<stop>\<close> for every other route. A property that the
  JSON may lack is an option; the properties that are there have the types of the feed.
\<close>

datatype fetch_error = NetworkFailure | HttpStatus nat | BadJson

datatype endpoint = RtdArrivals string | RtdGline string

record json_arrival =
  ja_routeId :: "string option"
  ja_directionId :: "int option"
  ja_tripId :: "string option"
  ja_arrivalTime :: "int option"
  ja_departureTime :: "int option"
  ja_arrivalTimeFormatted :: "string option"
  ja_departureTimeFormatted :: "string option"

record station_json =
  sj_stopName :: "string option"
  sj_timestamp :: "int option"
  sj_arrivals :: "json_arrival list option"

text \<open>
  What one call of \<open>API.getStationArrivals\<close> sees of the outside world: the answer to its
  request, and the clock. \<open>io_clock k\<close> is the value of the \<open>k\<close>-th \<open>Date.now()\<close> of
  the call, in milliseconds (the map callback reads the clock once for each entry).
\<close>

record api_io =
  io_fetch :: "endpoint \<Rightarrow> fetch_error + station_json"
  io_clock :: "nat \<Rightarrow> int"

subsection \<open>\<open>API.getStationArrivals\<close>\<close>

record arrival =
  time :: "int option"
  timeFormatted :: "string option"
  routeId :: "string option"
  directionId :: "int option"
  tripId :: "string option"
  minutesAway :: "int option"

record station_arrivals =
  sa_stopId :: string
  sa_stopName :: string
  sa_arrivals :: "arrival list"
  sa_timestamp :: "int option"
  sa_isFallback :: bool

definition minutesUntil :: "int \<Rightarrow> int option \<Rightarrow> int option" where
  \<comment> \<open>\<open>Math.round((t - Date.now() / 1000) / 60)\<close>, with \<open>Date.now() = nowMs\<close>\<close>
  "minutesUntil nowMs t =
     map_option (\<lambda>s. math_round ((of_int s - of_int nowMs / 1000) / 60)) t"

definition normalizeArrival :: "int \<Rightarrow> json_arrival \<Rightarrow> arrival" where
  \<comment> \<open>the callback of \<open>.map\<close>, run with \<open>Date.now() = nowMs\<close>\<close>
  "normalizeArrival nowMs a =
     \<lparr> time = or_num (ja_arrivalTime a) (ja_departureTime a),
       timeFormatted = or_str (ja_arrivalTimeFormatted a) (ja_departureTimeFormatted a),
       routeId = ja_routeId a,
       directionId = ja_directionId a,
       tripId = ja_tripId a,
       minutesAway = minutesUntil nowMs (ja_arrivalTime a) \<rparr>"

definition normalizeArrivals :: "(nat \<Rightarrow> int) \<Rightarrow> string \<Rightarrow> json_arrival list \<Rightarrow> arrival list" where
  \<comment> \<open>\<open>.filter(...).map(...).sort((a, b) => a.time - b.time)\<close>\<close>
  "normalizeArrivals clock wanted entries =
     sort_num time
       (map (\<lambda>(k, a). normalizeArrival (clock k) a)
          (enumerate 0 (filter (\<lambda>a. ja_routeId a = Some wanted) entries)))"

definition getStationArrivals :: "api_io \<Rightarrow> string \<Rightarrow> string \<Rightarrow> station_arrivals" where
  "getStationArrivals io stopId wanted =
     (let endpoint = (if wanted = ''117N'' then RtdArrivals stopId else RtdGline stopId) in
      case io_fetch io endpoint of
        Inr data \<Rightarrow>
          \<lparr> sa_stopId = stopId,
            sa_stopName =
              (case or_str (sj_stopName data) (Some stopId) of Some name \<Rightarrow> name
               | None \<Rightarrow> stopId),
            sa_arrivals =
              normalizeArrivals (io_clock io) wanted
                (case sj_arrivals data of None \<Rightarrow> [] | Some entries \<Rightarrow> entries),
            sa_timestamp = sj_timestamp data,
            sa_isFallback = False \<rparr>
      | Inl err \<Rightarrow>
          \<lparr> sa_stopId = stopId, sa_stopName = stopId, sa_arrivals = [],
            sa_timestamp = Some (io_clock io 0), sa_isFallback = True \<rparr>)"

subsection \<open>\<open>API.getLineArrivals\<close>\<close>

record line_arrivals =
  la_station :: station_arrivals
  la_northbound :: "arrival list"
  la_southbound :: "arrival list"

definition getLineArrivals :: "api_io \<Rightarrow> string \<Rightarrow> string \<Rightarrow> line_arrivals" where
  "getLineArrivals io stopId wanted =
     (let data = getStationArrivals io stopId wanted;
          northbound = filter (\<lambda>a. directionId a = Some 0) (sa_arrivals data);
          southbound = filter (\<lambda>a. directionId a = Some 1) (sa_arrivals data)
      in \<lparr> la_station = data,
           la_northbound = take 3 northbound,
           la_southbound = take 3 southbound \<rparr>)"

section \<open>Merging the platforms of an N Line station (\<open>App.fetchTransitData\<close>, app.js)\<close>

record platform_config =
  platforms :: "string list"
  directions :: "string list"

definition nLinePlatforms :: "string \<rightharpoonup> platform_config" where
  "nLinePlatforms =
     map_of
       [(''35365'', \<lparr> platforms = [''35365''], directions = [''southbound''] \<rparr>),
        (''35254'', \<lparr> platforms = [''35254'', ''35255''],
                      directions = [''northbound'', ''southbound''] \<rparr>),
        (''35246'', \<lparr> platforms = [''35246'', ''35247''],
                      directions = [''northbound'', ''southbound''] \<rparr>),
        (''34668'', \<lparr> platforms = [''34668''], directions = [''northbound''] \<rparr>)]"

text \<open>
  The loop over the fetched platforms: \<open>allNorthbound\<close> and \<open>allSouthbound\<close> grow by
  the platform's lists when the station's configuration allows the direction. The allowed
  directions belong to the station entry, so every platform listed in the entry is declared
  for the same directions.
\<close>

fun collectPlatforms ::
  "string list \<Rightarrow> line_arrivals list \<Rightarrow> arrival list \<Rightarrow> arrival list
     \<Rightarrow> arrival list \<times> arrival list" where
  "collectPlatforms allowedDirections [] allNorthbound allSouthbound =
     (allNorthbound, allSouthbound)"
| "collectPlatforms allowedDirections (platformData # rest) allNorthbound allSouthbound =
     collectPlatforms allowedDirections rest
       (if ''northbound'' \<in> set allowedDirections
        then allNorthbound @ la_northbound platformData else allNorthbound)
       (if ''southbound'' \<in> set allowedDirections
        then allSouthbound @ la_southbound platformData else allSouthbound)"

record merged_data =
  md_northbound :: "arrival list"
  md_southbound :: "arrival list"

definition mergePlatforms :: "string list \<Rightarrow> line_arrivals list \<Rightarrow> merged_data" where
  \<comment> \<open>the loop, then \<open>.sort((a, b) => a.time - b.time)\<close> on each list\<close>
  "mergePlatforms allowedDirections fetched =
     (case collectPlatforms allowedDirections fetched [] [] of
        (allNorthbound, allSouthbound) \<Rightarrow>
          \<lparr> md_northbound = sort_num time allNorthbound,
            md_southbound = sort_num time allSouthbound \<rparr>)"

text \<open>
  One station of one line. \<open>env i\<close> is what the \<open>i\<close>-th call of \<open>API.getLineArrivals\<close>
  for this station sees. An entry of \<open>lineData\<close> has the direction lists, the stop name and
  the station name; the entry of a station read from a single stop also carries the other
  fields of that fetch.
\<close>

record station_entry =
  se_northbound :: "arrival list"
  se_southbound :: "arrival list"
  se_stopName :: string
  se_stationName :: string
  se_fetched :: "station_arrivals option"

definition fetchPlatforms :: "(nat \<Rightarrow> api_io) \<Rightarrow> string \<Rightarrow> string list \<Rightarrow> line_arrivals list" where
  "fetchPlatforms env lineId platformIds =
     map (\<lambda>i. getLineArrivals (env i) (platformIds ! i) lineId) [0..<length platformIds]"

definition fetchStation ::
  "(string \<rightharpoonup> platform_config) \<Rightarrow> (nat \<Rightarrow> api_io) \<Rightarrow> string \<Rightarrow> string \<Rightarrow> string
     \<Rightarrow> station_entry" where
  "fetchStation config env lineId station_id station_name =
     (case (if lineId = ''117N'' then config station_id else None) of
        Some cfg \<Rightarrow>
          (let merged = mergePlatforms (directions cfg)
                          (fetchPlatforms env lineId (platforms cfg))
           in \<lparr> se_northbound = md_northbound merged,
                se_southbound = md_southbound merged,
                se_stopName = station_name,
                se_stationName = station_name,
                se_fetched = None \<rparr>)
      | None \<Rightarrow>
          (let data = getLineArrivals (env 0) station_id lineId
           in \<lparr> se_northbound = la_northbound data,
                se_southbound = la_southbound data,
                se_stopName = sa_stopName (la_station data),
                se_stationName = station_name,
                se_fetched = Some (la_station data) \<rparr>))"

section \<open>Drive times (\<open>API.getDriveTimes\<close>, api.js)\<close>

text \<open>
  The request carries the two coordinates and the highway flag; its other fields are
  constants. The answer is the JSON of the route provider, or what \<open>API.fetch\<close> throws.
\<close>

record location =
  loc_lat :: "real option"
  loc_lng :: "real option"

record routes_request =
  rq_origin :: location
  rq_destination :: location
  rq_avoidHighways :: bool

record route_json =
  rt_duration :: "string option"
  rt_distanceMeters :: "int option"
  rt_description :: "string option"

record routes_json =
  rj_routes :: "route_json list option"

record drive_time =
  dt_minutes :: "int option"
  dt_distance :: "int option"
  dt_description :: string
  dt_isFallback :: bool

definition is_space :: "char \<Rightarrow> bool" where
  "is_space c = (of_char c \<in> {9, 10, 11, 12, 13, 32 :: nat})"

definition digit_of :: "nat \<Rightarrow> char \<Rightarrow> nat option" where
  "digit_of radix c =
     (let n = (of_char c :: nat) in
      if 48 \<le> n \<and> n \<le> 57 then Some (n - 48)
      else if radix = 16 \<and> 97 \<le> n \<and> n \<le> 102 then Some (n - 87)
      else if radix = 16 \<and> 65 \<le> n \<and> n \<le> 70 then Some (n - 55)
      else None)"

definition parseInt :: "string option \<Rightarrow> int option" where
  \<comment> \<open>\<open>parseInt(s)\<close> without a radix: leading blanks, a sign, an optional \<open>0x\<close>, then
      the longest run of digits; \<open>NaN\<close> when there is none (as for \<open>undefined\<close>)\<close>
  "parseInt s =
     (case s of None \<Rightarrow> None
      | Some str \<Rightarrow>
          (let s1 = dropWhile is_space str;
               (sign, s2) = (case s1 of
                               c # r \<Rightarrow> (if c = CHR ''-'' then (- 1 :: int, r)
                                         else if c = CHR ''+'' then (1, r) else (1, s1))
                             | [] \<Rightarrow> (1, s1));
               (radix, s3) = (case s2 of
                                c # d # r \<Rightarrow> (if c = CHR ''0'' \<and> (d = CHR ''x'' \<or> d = CHR ''X'')
                                              then (16 :: nat, r) else (10, s2))
                              | _ \<Rightarrow> (10, s2));
               digits = takeWhile (\<lambda>c. digit_of radix c \<noteq> None) s3
           in if digits = [] then None
              else Some (sign * int (foldl (\<lambda>acc c. acc * radix
                                               + (case digit_of radix c of Some d \<Rightarrow> d | None \<Rightarrow> 0))
                                      0 digits))))"

definition getFallbackDriveTime :: drive_time where
  "getFallbackDriveTime =
     \<lparr> dt_minutes = Some 30, dt_distance = Some 15, dt_description = ''Estimated'',
       dt_isFallback = True \<rparr>"

definition getDriveTimes ::
  "(routes_request \<Rightarrow> fetch_error + routes_json) \<Rightarrow> location \<Rightarrow> location \<Rightarrow> bool \<Rightarrow> drive_time" where
  "getDriveTimes fetchRoutes origin destination avoidHighways =
     (case fetchRoutes \<lparr> rq_origin = origin, rq_destination = destination,
                         rq_avoidHighways = avoidHighways \<rparr> of
        Inl err \<Rightarrow> getFallbackDriveTime
      | Inr data \<Rightarrow>
          (case rj_routes data of
             Some (route # others) \<Rightarrow>
               (let duration = parseInt (rt_duration route);
                    minutes = map_option (\<lambda>d. math_round (of_int d / 60)) duration
                in \<lparr> dt_minutes = minutes,
                     dt_distance =
                       map_option (\<lambda>m. math_round (of_int m * (621371 / 1000000000)))
                         (rt_distanceMeters route),
                     dt_description =
                       (case or_str (rt_description route) (Some []) of Some d \<Rightarrow> d
                        | None \<Rightarrow> []),
                     dt_isFallback = False \<rparr>)
           | _ \<Rightarrow> getFallbackDriveTime))"

section \<open>Arrivals from the GTFS-Realtime feed (\<open>/api/rtd/gline/:stopId\<close>, server.js)\<close>

text \<open>
  The handler works on the message that the protobuf library decoded. The fields are those
  the handler reads; an optional field of the wire format is an option. The library hands a
  64-bit field over either as a number or as a \<open>Long\<close> object, and supplies zero for a field
  that the message does not carry. A number is truthy when it is not zero; an object is
  always truthy. The library is not part of the repository, so its representation is a
  parameter of the handler.
\<close>

datatype int64_repr = AsNumber | AsLong

record stop_time_event =
  ste_time :: "int option"

record stop_time_update =
  stu_stopId :: string
  stu_arrival :: "stop_time_event option"
  stu_departure :: "stop_time_event option"

record trip_descriptor =
  td_routeId :: string
  td_tripId :: string
  td_directionId :: "int option"

record trip_update =
  tu_trip :: trip_descriptor
  tu_stopTimeUpdate :: "stop_time_update list"

record feed_entity =
  fe_tripUpdate :: "trip_update option"

record feed_message =
  fm_timestamp :: "int option"
  fm_entity :: "feed_entity list"

record gline_arrival =
  ga_route :: string
  ga_routeId :: string
  ga_tripId :: string
  ga_directionId :: int
  ga_arrivalTime :: int
  ga_scheduledArrivalTime :: int
  ga_arrivalTimeFormatted :: string
  ga_status :: string
  ga_stopId :: string

record gline_result =
  gr_stopId :: string
  gr_stopName :: string
  gr_timestamp :: int
  gr_feedTimestamp :: int
  gr_feedAgeMinutes :: int
  gr_arrivals :: "gline_arrival list"

definition time_truthy :: "int64_repr \<Rightarrow> int option \<Rightarrow> bool" where
  \<comment> \<open>the test \<open>arrival.time\<close> of the \<open>if\<close>\<close>
  "time_truthy repr t = (case repr of AsNumber \<Rightarrow> truthy_num t | AsLong \<Rightarrow> True)"

definition time_number :: "int option \<Rightarrow> int" where
  \<comment> \<open>\<open>Number(arrival.time)\<close>\<close>
  "time_number t = (case t of None \<Rightarrow> 0 | Some n \<Rightarrow> n)"

definition stopArrivals ::
  "int64_repr \<Rightarrow> (int \<Rightarrow> string) \<Rightarrow> string \<Rightarrow> trip_descriptor \<Rightarrow> stop_time_update
     \<Rightarrow> gline_arrival list" where
  \<comment> \<open>the body of the inner loop: what one stop-time update pushes on \<open>arrivals\<close>.
      \<open>clockString\<close> is \<open>toLocaleTimeString\<close> for the Denver time zone.\<close>
  "stopArrivals repr clockString stopId trip stopUpdate =
     (if stu_stopId stopUpdate = stopId then
        (case stu_arrival stopUpdate of
           None \<Rightarrow> []
         | Some arrival \<Rightarrow>
             (if time_truthy repr (ste_time arrival) then
                (let arrivalTime = time_number (ste_time arrival);
                     scheduledTime = time_number (ste_time arrival)
                 in [\<lparr> ga_route = td_routeId trip,
                        ga_routeId = td_routeId trip,
                        ga_tripId = td_tripId trip,
                        ga_directionId =
                          (case or_num (td_directionId trip) (Some 0) of Some d \<Rightarrow> d
                           | None \<Rightarrow> 0),
                        ga_arrivalTime = arrivalTime,
                        ga_scheduledArrivalTime = scheduledTime,
                        ga_arrivalTimeFormatted = clockString arrivalTime,
                        ga_status = ''Scheduled'',
                        ga_stopId = stopId \<rparr>])
              else []))
      else [])"

definition entityArrivals ::
  "int64_repr \<Rightarrow> (int \<Rightarrow> string) \<Rightarrow> string \<Rightarrow> feed_entity \<Rightarrow> gline_arrival list" where
  "entityArrivals repr clockString stopId entity =
     (case fe_tripUpdate entity of
        None \<Rightarrow> []
      | Some tripUpdate \<Rightarrow>
          concat (map (stopArrivals repr clockString stopId (tu_trip tripUpdate))
                    (tu_stopTimeUpdate tripUpdate)))"

definition glineArrivals ::
  "int64_repr \<Rightarrow> (int \<Rightarrow> string) \<Rightarrow> feed_message \<Rightarrow> string \<Rightarrow> gline_arrival list" where
  \<comment> \<open>the two nested iterations, then \<open>arrivals.sort((a, b) => a.arrivalTime - b.arrivalTime)\<close>\<close>
  "glineArrivals repr clockString feed stopId =
     sort_num (\<lambda>a. Some (ga_arrivalTime a))
       (concat (map (entityArrivals repr clockString stopId) (fm_entity feed)))"

definition glineHandler ::
  "int64_repr \<Rightarrow> (int \<Rightarrow> string) \<Rightarrow> (nat \<Rightarrow> int) \<Rightarrow> (fetch_error + feed_message) \<Rightarrow> string
     \<Rightarrow> string + gline_result" where
  \<comment> \<open>\<open>Inl\<close> is the status 500 answer of the \<open>catch\<close>; \<open>clock k\<close> is the \<open>k\<close>-th
      \<open>Date.now()\<close>\<close>
  "glineHandler repr clockString clock upstream stopId =
     (case upstream of
        Inl err \<Rightarrow> Inl ''Failed to fetch GTFS-RT data''
      | Inr feed \<Rightarrow>
          (let now = clock 0 div 1000;
               arrivals = glineArrivals repr clockString feed stopId
           in Inr \<lparr> gr_stopId = stopId,
                    gr_stopName = stopId,
                    gr_timestamp = clock 1,
                    gr_feedTimestamp = time_number (fm_timestamp feed) * 1000,
                    gr_feedAgeMinutes = (now - time_number (fm_timestamp feed)) div 60,
                    gr_arrivals = arrivals \<rparr>))"

section \<open>Position of a train on the track (\<open>getTrainPosition\<close> in \<open>renderVisualTrack\<close>)\<close>










section \<open>Status label of a displayed train (\<open>App.renderYourStation\<close>, app.js)\<close>

text \<open>
  Both direction columns run the same code on each of the (at most two) trains they show:
  \<^verbatim>\<open>const minutesAway = Math.max(0, train.minutesAway);
  let status = 'Scheduled';
  if (minutesAway <= 1) { status = 'Arriving'; }
  else if (minutesAway <= 5) { status = 'Approaching'; }\<close>
\<close>

definition trainStatus :: "int option \<Rightarrow> string" where
  "trainStatus train_minutesAway =
     (let minutesAway = math_max 0 train_minutesAway in
      if num_le minutesAway (Some 1) then ''Arriving''
      else if num_le minutesAway (Some 5) then ''Approaching''
      else ''Scheduled'')"

section \<open>Example inputs\<close>

text \<open>
  Entries of the JSON feed: two entries of a shared platform (one of the N Line, one of the
  G Line), an entry that has a departure time only, and N Line entries with a given direction
  and arrival time. An upstream that answers every request with the given entries at a
  fixed clock reading; two platforms that answer with three northbound arrivals each, the
  first one also with a southbound arrival.
\<close>

definition ex_e1 :: json_arrival where
  "ex_e1 = \<lparr> ja_routeId = Some ''117N'', ja_directionId = Some 0, ja_tripId = Some ''t1'',
     ja_arrivalTime = Some 1700000600, ja_departureTime = None,
     ja_arrivalTimeFormatted = None, ja_departureTimeFormatted = None \<rparr>"

definition ex_e2 :: json_arrival where
  "ex_e2 = \<lparr> ja_routeId = Some ''113G'', ja_directionId = Some 0, ja_tripId = Some ''t2'',
     ja_arrivalTime = Some 1700000300, ja_departureTime = None,
     ja_arrivalTimeFormatted = None, ja_departureTimeFormatted = None \<rparr>"

definition ex_io :: "json_arrival list \<Rightarrow> api_io" where
  "ex_io entries = \<lparr> io_fetch = (\<lambda>e. Inr \<lparr> sj_stopName = None, sj_timestamp = None, sj_arrivals = Some entries \<rparr>),
      io_clock = (\<lambda>k. 1700000000000) \<rparr>"

definition ex_departure_only :: json_arrival where
  "ex_departure_only = \<lparr> ja_routeId = Some ''117N'', ja_directionId = Some 0, ja_tripId = Some ''t1'',
     ja_arrivalTime = None, ja_departureTime = Some 1700000600,
     ja_arrivalTimeFormatted = None, ja_departureTimeFormatted = None \<rparr>"

definition ex_entry :: "int \<Rightarrow> int \<Rightarrow> json_arrival" where
  "ex_entry dir t = \<lparr> ja_routeId = Some ''117N'', ja_directionId = Some dir, ja_tripId = None,
     ja_arrivalTime = Some t, ja_departureTime = None,
     ja_arrivalTimeFormatted = None, ja_departureTimeFormatted = None \<rparr>"

definition ex_env :: "nat \<Rightarrow> api_io" where
  "ex_env i =
     (if i = 0
      then ex_io [ex_entry 0 1700000100, ex_entry 0 1700000400, ex_entry 0 1700000700,
                  ex_entry 1 1700000900]
      else ex_io [ex_entry 0 1700000200, ex_entry 0 1700000500, ex_entry 0 1700000800])"







section \<open>Properties\<close>

subsection \<open>The sort returns an ascending permutation\<close>


lemma mset_insert_num: "mset (insert_num key x xs) = add_mset x (mset xs)"
  by (induction xs) auto

lemma mset_foldl_insert_num:
  "mset (foldl (\<lambda>acc x. insert_num key x acc) acc xs) = mset acc + mset xs"
  by (induction xs arbitrary: acc) (auto simp: mset_insert_num)

lemma mset_sort_num: "mset (sort_num key xs) = mset xs"
  by (simp add: sort_num_def mset_foldl_insert_num)

lemma set_sort_num: "set (sort_num key xs) = set xs"
  using mset_sort_num [of key xs] by (metis set_mset_mset)

lemma length_sort_num: "length (sort_num key xs) = length xs"
  using mset_sort_num [of key xs] by (metis size_mset)





lemma sort_num_Nil: "sort_num key [] = []"
  by (simp add: sort_num_def)

subsection \<open>Arrivals decoded from the GTFS-Realtime feed\<close>





subsection \<open>Route filter of the normalization\<close>

lemma routeId_normalizeArrival: "routeId (normalizeArrival nowMs a) = ja_routeId a"
  by (simp add: normalizeArrival_def)

lemma snd_in_set_enumerate: "(k, a) \<in> set (enumerate n xs) \<Longrightarrow> a \<in> set xs"
  by (metis enumerate_eq_zip set_zip_rightD)

text \<open>
  Claim C2. Whatever the upstream list holds, every arrival that \<open>getStationArrivals\<close>
  returns has the requested route identifier. The entries of another route are dropped by
  the filter: the result has as many records as the list has entries of the requested route,
  and nothing is raised for the others.
\<close>

theorem normalizeArrivals_route_filter:
  "(\<forall>r\<in>set (normalizeArrivals clock wanted entries). routeId r = Some wanted)
   \<and> length (normalizeArrivals clock wanted entries)
       = length (filter (\<lambda>a. ja_routeId a = Some wanted) entries)
   \<and> (\<forall>r\<in>set (sa_arrivals (getStationArrivals io stopId wanted)). routeId r = Some wanted)"
proof (intro conjI)
  show 1: "\<forall>r\<in>set (normalizeArrivals clock wanted entries). routeId r = Some wanted" for clock entries
    by (auto simp: normalizeArrivals_def set_sort_num routeId_normalizeArrival
          dest!: snd_in_set_enumerate)
  show "length (normalizeArrivals clock wanted entries)
       = length (filter (\<lambda>a. ja_routeId a = Some wanted) entries)"
    by (simp add: normalizeArrivals_def length_sort_num)
  show "\<forall>r\<in>set (sa_arrivals (getStationArrivals io stopId wanted)). routeId r = Some wanted"
    using 1 by (auto simp: getStationArrivals_def Let_def split: sum.splits)
qed

theorem normalizeArrivals_route_filter_witness:
  "length (sa_arrivals (getStationArrivals (ex_io [ex_e2, ex_e1]) ''35254'' ''117N'')) = 1
   \<and> routeId (hd (sa_arrivals (getStationArrivals (ex_io [ex_e2, ex_e1]) ''35254'' ''117N''))) = Some ''117N''"
proof -
  let ?out = "sa_arrivals (getStationArrivals (ex_io [ex_e2, ex_e1]) ''35254'' ''117N'')"
  have out: "?out = normalizeArrivals (\<lambda>k. 1700000000000) ''117N'' [ex_e2, ex_e1]"
    by (simp add: getStationArrivals_def ex_io_def)
  have len: "length ?out = 1"
    unfolding out
    using normalizeArrivals_route_filter [of "\<lambda>k. 1700000000000" "''117N''" "[ex_e2, ex_e1]"]
    by (simp add: ex_e1_def ex_e2_def)
  then have "hd ?out \<in> set ?out" by (cases ?out) auto
  then have "routeId (hd ?out) = Some ''117N''"
    using normalizeArrivals_route_filter [of _ "''117N''" _ "ex_io [ex_e2, ex_e1]" "''35254''"]
    by blast
  with len show ?thesis by simp
qed

subsection \<open>Epoch time and countdown of a normalized record\<close>

text \<open>
  Claim C3, at an entry that carries a departure time only, read at the clock value
  1700000000000 ms. The record's \<open>time\<close> falls back to the departure time 1700000600, but
  \<open>minutesAway\<close> is computed from \<open>arrival.arrivalTime\<close> alone and is \<open>NaN\<close>, where
  the claim asks for \<open>round((1700000600 - 1700000000) / 60) = 10\<close>. With the arrival time
  present the countdown is 10.
\<close>

theorem normalizeArrival_departure_only:
  "time (normalizeArrival 1700000000000 ex_departure_only) = Some 1700000600
   \<and> minutesAway (normalizeArrival 1700000000000 ex_departure_only) = None
   \<and> minutesAway (normalizeArrival 1700000000000 ex_e1) = Some 10"
  by (simp add: normalizeArrival_def ex_departure_only_def ex_e1_def or_num_def truthy_num_def
      minutesUntil_def math_round_def)

subsection \<open>Directions of a merged station\<close>

lemma collectPlatforms_eq:
  "collectPlatforms allowed fetched nb sb =
     (nb @ (if ''northbound'' \<in> set allowed then concat (map la_northbound fetched) else []),
      sb @ (if ''southbound'' \<in> set allowed then concat (map la_southbound fetched) else []))"
  by (induction fetched arbitrary: nb sb) auto

lemma md_northbound_mergePlatforms:
  "md_northbound (mergePlatforms allowed fetched) =
     sort_num time (if ''northbound'' \<in> set allowed then concat (map la_northbound fetched) else [])"
  by (simp add: mergePlatforms_def collectPlatforms_eq)

lemma md_southbound_mergePlatforms:
  "md_southbound (mergePlatforms allowed fetched) =
     sort_num time (if ''southbound'' \<in> set allowed then concat (map la_southbound fetched) else [])"
  by (simp add: mergePlatforms_def collectPlatforms_eq)

lemmas transit_eval = fetchStation_def nLinePlatforms_def md_northbound_mergePlatforms
  md_southbound_mergePlatforms sort_num_def fetchPlatforms_def getLineArrivals_def
  getStationArrivals_def normalizeArrivals_def normalizeArrival_def or_num_def or_str_def
  truthy_num_def truthy_str_def num_less_def minutesUntil_def math_round_def upt_rec
  ex_env_def ex_io_def ex_entry_def

text \<open>
  Claim C4. The merged northbound list holds arrivals of the platforms' northbound lists, and
  only when the station's configuration declares the direction \<open>northbound\<close>; likewise for
  southbound. The declaration is the \<open>directions\<close> list of the station entry, shared by the
  platforms that the entry lists. When a direction is not declared its list is empty whatever
  the platforms report: for the northern terminus 35365, declared for southbound only, no
  fetched arrival reaches the northbound list, and none reaches the southbound list of the
  southern terminus 34668.
\<close>

theorem mergePlatforms_declared_directions:
  "set (md_northbound (mergePlatforms allowedDirections fetched)) =
     (if ''northbound'' \<in> set allowedDirections
      then (\<Union>platformData\<in>set fetched. set (la_northbound platformData)) else {})
   \<and> set (md_southbound (mergePlatforms allowedDirections fetched)) =
     (if ''southbound'' \<in> set allowedDirections
      then (\<Union>platformData\<in>set fetched. set (la_southbound platformData)) else {})
   \<and> (config station_id = Some cfg \<and> ''northbound'' \<notin> set (directions cfg)
        \<longrightarrow> se_northbound (fetchStation config env ''117N'' station_id name) = [])
   \<and> (config station_id = Some cfg \<and> ''southbound'' \<notin> set (directions cfg)
        \<longrightarrow> se_southbound (fetchStation config env ''117N'' station_id name) = [])
   \<and> se_northbound (fetchStation nLinePlatforms env ''117N'' ''35365'' name) = []
   \<and> se_southbound (fetchStation nLinePlatforms env ''117N'' ''34668'' name) = []"
  by (auto simp: md_northbound_mergePlatforms md_southbound_mergePlatforms set_sort_num
      sort_num_Nil fetchStation_def nLinePlatforms_def)

theorem mergePlatforms_declared_directions_witness:
  "map time (la_northbound (getLineArrivals (ex_env 0) ''35365'' ''117N''))
     = [Some 1700000100, Some 1700000400, Some 1700000700]
   \<and> se_northbound (fetchStation nLinePlatforms ex_env ''117N'' ''35365'' ''Eastlake & 124th'') = []
   \<and> map time (se_southbound
        (fetchStation nLinePlatforms ex_env ''117N'' ''35365'' ''Eastlake & 124th''))
     = [Some 1700000900]"
proof -
  have "se_northbound (fetchStation nLinePlatforms ex_env ''117N'' ''35365'' ''Eastlake & 124th'')
        = []"
    using mergePlatforms_declared_directions
      [where config = nLinePlatforms and station_id = "''35365''" and env = ex_env
        and name = "''Eastlake & 124th''"
        and cfg = "\<lparr> platforms = [''35365''], directions = [''southbound''] \<rparr>"]
    by (simp add: nLinePlatforms_def)
  then show ?thesis by (simp add: transit_eval)
qed

subsection \<open>Order of a merged direction list\<close>



subsection \<open>Size of a direction list\<close>

lemma length_getLineArrivals:
  "length (la_northbound (getLineArrivals io stopId wanted)) \<le> 3
   \<and> length (la_southbound (getLineArrivals io stopId wanted)) \<le> 3"
  by (simp add: getLineArrivals_def Let_def)

lemma length_concat_le:
  "\<forall>ys\<in>set xss. length ys \<le> n \<Longrightarrow> length (concat xss) \<le> n * length xss"
  by (induction xss) auto

lemma length_md_northbound:
  assumes "\<forall>pd\<in>set fetched. length (la_northbound pd) \<le> 3"
  shows "length (md_northbound (mergePlatforms allowed fetched)) \<le> 3 * length fetched"
  using length_concat_le [of "map la_northbound fetched" 3] assms
  by (simp add: md_northbound_mergePlatforms length_sort_num)

lemma length_md_southbound:
  assumes "\<forall>pd\<in>set fetched. length (la_southbound pd) \<le> 3"
  shows "length (md_southbound (mergePlatforms allowed fetched)) \<le> 3 * length fetched"
  using length_concat_le [of "map la_southbound fetched" 3] assms
  by (simp add: md_southbound_mergePlatforms length_sort_num)

text \<open>
  Claim C6, as the code has it. \<open>getLineArrivals\<close> keeps the first 3 arrivals of each direction
  of one stop, and the merge of an N Line station concatenates these lists without cutting
  again. A direction list of a station read from a single stop has at most 3 arrivals; a
  direction list of a station merged from its configured platforms has at most 3 for each
  platform.
\<close>

theorem fetchStation_direction_cap:
  "((lineId \<noteq> ''117N'' \<or> config station_id = None) \<longrightarrow>
      length (se_northbound (fetchStation config env lineId station_id name)) \<le> 3
      \<and> length (se_southbound (fetchStation config env lineId station_id name)) \<le> 3)
   \<and> (lineId = ''117N'' \<and> config station_id = Some cfg \<longrightarrow>
      length (se_northbound (fetchStation config env lineId station_id name))
        \<le> 3 * length (platforms cfg)
      \<and> length (se_southbound (fetchStation config env lineId station_id name))
        \<le> 3 * length (platforms cfg))"
proof -
  have f: "\<forall>pd\<in>set (fetchPlatforms env lineId ids).
             length (la_northbound pd) \<le> 3 \<and> length (la_southbound pd) \<le> 3" for ids
    by (auto simp: fetchPlatforms_def length_getLineArrivals)
  have l: "length (fetchPlatforms env lineId ids) = length ids" for ids
    by (simp add: fetchPlatforms_def)
  show ?thesis
    using length_md_northbound [of "fetchPlatforms env lineId (platforms cfg)" "directions cfg"]
      length_md_southbound [of "fetchPlatforms env lineId (platforms cfg)" "directions cfg"]
      f [of "platforms cfg"] length_getLineArrivals [of "env 0" station_id lineId]
    by (auto simp: fetchStation_def Let_def l)
qed

theorem fetchStation_direction_cap_witness:
  "length (se_northbound
      (fetchStation nLinePlatforms ex_env ''117N'' ''35254'' ''112th / Northglenn'')) \<le> 6
   \<and> length (se_northbound
      (fetchStation nLinePlatforms ex_env ''113G'' ''34781'' ''Union Station'')) \<le> 3"
  using fetchStation_direction_cap [of "''117N''" nLinePlatforms "''35254''" ex_env
      "''112th / Northglenn''"
      "\<lparr> platforms = [''35254'', ''35255''], directions = [''northbound'', ''southbound''] \<rparr>"]
    fetchStation_direction_cap [of "''113G''" nLinePlatforms "''34781''" ex_env "''Union Station''"]
  by (simp add: nLinePlatforms_def)

text \<open>
  Station 35254 has two platforms; when each reports three northbound arrivals the merged
  northbound list has six, more than the 3 of the claim.
\<close>

theorem fetchStation_direction_cap_counterexample:
  "\<not> length (se_northbound
        (fetchStation nLinePlatforms ex_env ''117N'' ''35254'' ''112th / Northglenn'')) \<le> 3"
  by (simp add: transit_eval)

subsection \<open>Range of the track position\<close>













subsection \<open>The coordinate fallback looks at the first station only\<close>



subsection \<open>Status thresholds\<close>

text \<open>
  Claim C8. The status label of a displayed arrival is a function of \<open>minutesAway\<close> alone, with
  the fixed thresholds: at most 1 minute gives "Arriving", more than 1 and at most 5 gives
  "Approaching", anything else (also a \<open>NaN\<close> countdown) gives "Scheduled". The display clamp
  \<open>Math.max(0, minutesAway)\<close> does not move a value across a threshold.
\<close>

theorem trainStatus_thresholds:
  "trainStatus (Some m) =
     (if m \<le> 1 then ''Arriving'' else if m \<le> 5 then ''Approaching'' else ''Scheduled'')
   \<and> trainStatus None = ''Scheduled''"
  by (simp add: trainStatus_def math_max_def num_le_def)

theorem trainStatus_thresholds_witness:
  "trainStatus (Some (- 3)) = ''Arriving'' \<and> trainStatus (Some 1) = ''Arriving''
   \<and> trainStatus (Some 2) = ''Approaching'' \<and> trainStatus (Some 5) = ''Approaching''
   \<and> trainStatus (Some 6) = ''Scheduled''"
  using trainStatus_thresholds [of "- 3"] trainStatus_thresholds [of 1]
    trainStatus_thresholds [of 2] trainStatus_thresholds [of 5] trainStatus_thresholds [of 6]
  by simp

subsection \<open>Fallback of the drive time\<close>

text \<open>
  Claim C9. When the call of the route provider throws, or answers without a first route
  (no \<open>routes\<close>, or an empty list), \<open>getDriveTimes\<close> returns the fixed estimate: 30 minutes,
  15 miles (the field is called \<open>distance\<close> in the code), the description "Estimated" and the
  fallback flag set. Nothing is propagated.
\<close>

theorem getDriveTimes_fallback:
  "(case fetchRoutes \<lparr> rq_origin = origin, rq_destination = destination,
                        rq_avoidHighways = avoidHighways \<rparr> of
      Inl err \<Rightarrow> True
    | Inr data \<Rightarrow> rj_routes data = None \<or> rj_routes data = Some [])
   \<Longrightarrow> getDriveTimes fetchRoutes origin destination avoidHighways
       = \<lparr> dt_minutes = Some 30, dt_distance = Some 15, dt_description = ''Estimated'',
           dt_isFallback = True \<rparr>"
  by (auto simp: getDriveTimes_def getFallbackDriveTime_def split: sum.splits)

theorem getDriveTimes_fallback_witness:
  "getDriveTimes (\<lambda>req. Inl NetworkFailure) \<lparr> loc_lat = Some 39.9, loc_lng = Some (- 104.98) \<rparr>
       \<lparr> loc_lat = Some 39.74, loc_lng = Some (- 104.99) \<rparr> False
     = \<lparr> dt_minutes = Some 30, dt_distance = Some 15, dt_description = ''Estimated'',
         dt_isFallback = True \<rparr>
   \<and> getDriveTimes (\<lambda>req. Inr \<lparr> rj_routes = Some [] \<rparr>) \<lparr> loc_lat = Some 39.9, loc_lng = Some (- 104.98) \<rparr>
       \<lparr> loc_lat = Some 39.74, loc_lng = Some (- 104.99) \<rparr> True
     = \<lparr> dt_minutes = Some 30, dt_distance = Some 15, dt_description = ''Estimated'',
         dt_isFallback = True \<rparr>"
  using getDriveTimes_fallback [of "\<lambda>req. Inl NetworkFailure"
      "\<lparr> loc_lat = Some 39.9, loc_lng = Some (- 104.98) \<rparr>"
      "\<lparr> loc_lat = Some 39.74, loc_lng = Some (- 104.99) \<rparr>" False]
    getDriveTimes_fallback [of "\<lambda>req. Inr \<lparr> rj_routes = Some [] \<rparr>"
      "\<lparr> loc_lat = Some 39.9, loc_lng = Some (- 104.98) \<rparr>"
      "\<lparr> loc_lat = Some 39.74, loc_lng = Some (- 104.99) \<rparr>" True]
  by simp

end
